theory Spec2Isabelle
  imports Complex_Main "HOL-Library.AList"
begin

section \<open>The device session registry of \<^verbatim>\<open>backend/main.py\<close>\<close>

text \<open>
  The backend keeps one global dictionary \<^verbatim>\<open>device_data\<close>, keyed by the device id, and
  every request handler reads or rewrites one entry of it. The handlers are embedded as
  functions that take the registry and the reading of \<^verbatim>\<open>time.time()\<close> and return the new
  registry together with the response. Three conventions hold throughout:
  \<^item> a Python \<^verbatim>\<open>dict\<close> is an association list in insertion order; \<open>AList.update\<close> is the
    assignment \<^verbatim>\<open>d[k] = v\<close> (an existing key keeps its place, a new key goes to the end),
    \<open>map_of\<close> the lookup and \<open>AList.delete\<close> the statement \<^verbatim>\<open>del d[k]\<close>;
  \<^item> a timestamp is a \<open>real\<close>; the only arithmetic on timestamps is one subtraction and one
    comparison with the constant 300;
  \<^item> \<^verbatim>\<open>print\<close> calls are left out.
\<close>

subsection \<open>JSON values and request bodies\<close>

datatype json =
    JNull
  | JBool bool
  | JInt int
  | JFloat real
  | JStr string
  | JArr "json list"
  | JObj "(string \<times> json) list"

type_synonym pydict = "(string \<times> json) list"

subsection \<open>The entries of \<^verbatim>\<open>device_data\<close>\<close>

text \<open>
  Every place that stores an entry writes the same five keys, so an entry is a record.
\<close>

record device_info =
  latest :: pydict
  ready :: bool
  last_update :: real
  status :: string
  collecting :: bool

type_synonym device_data = "(string \<times> device_info) list"

subsection \<open>The model \<^verbatim>\<open>ECGData\<close> and its validation\<close>

text \<open>
  \<^verbatim>\<open>ECGData\<close> declares three required fields (\<^verbatim>\<open>hr: float\<close>, \<^verbatim>\<open>spo2: float\<close>,
  \<^verbatim>\<open>ecg: List[float]\<close>) and two optional ones (\<^verbatim>\<open>rest_ecg: Optional[int] = 0\<close>,
  \<^verbatim>\<open>timestamp: Optional[str] = None\<close>). The field validators themselves belong to the
  pydantic library. What the library does on a JSON number, a boolean, \<^verbatim>\<open>null\<close>, a list
  and an object given to a \<^verbatim>\<open>float\<close> field is written out below; how it reads a string as a
  float, and how it validates an \<^verbatim>\<open>int\<close> and a \<^verbatim>\<open>str\<close> field, are parameters, collected in
  the record \<open>coercions\<close>, so that every general theorem holds for each choice of them.

  A \<^verbatim>\<open>float\<close> field converts a JSON integer with \<^verbatim>\<open>float(i)\<close>, which raises
  \<^verbatim>\<open>OverflowError\<close> when the integer does not round to a finite double, that is when its
  absolute value reaches \<open>2 ^ 1024 - 2 ^ 970\<close> (half a unit in the last place above the
  largest double); the validation then fails. The numbers kept in the record \<open>ECGData\<close>
  are the exact values: the handler prints them and reads them nowhere else.
\<close>

record coercions =
  str_float :: "string \<Rightarrow> real option"
  int_field :: "json \<Rightarrow> int option"
  str_field :: "json \<Rightarrow> string option"

record ECGData =
  hr :: real
  spo2 :: real
  ecg :: "real list"
  rest_ecg :: "int option"
  timestamp :: "string option"

datatype field_error = Missing string | Invalid string

fun float_field :: "coercions \<Rightarrow> json \<Rightarrow> real option" where
  "float_field C (JFloat x) = Some x"
| "float_field C (JInt i) = (if \<bar>i\<bar> < 2 ^ 1024 - 2 ^ 970 then Some (of_int i) else None)"
| "float_field C (JBool b) = Some (if b then 1 else 0)"
| "float_field C (JStr s) = str_float C s"
| "float_field C JNull = None"
| "float_field C (JArr xs) = None"
| "float_field C (JObj kvs) = None"

fun list_float_field :: "coercions \<Rightarrow> json \<Rightarrow> real list option" where
  "list_float_field C (JArr xs) = those (map (float_field C) xs)"
| "list_float_field C v = None"

definition required :: "(json \<Rightarrow> 'a option) \<Rightarrow> pydict \<Rightarrow> string \<Rightarrow> field_error + 'a" where
  "required f payload k =
     (case map_of payload k of
        None \<Rightarrow> Inl (Missing k)
      | Some v \<Rightarrow> (case f v of None \<Rightarrow> Inl (Invalid k) | Some a \<Rightarrow> Inr a))"

definition optional :: "(json \<Rightarrow> 'a option) \<Rightarrow> 'a option \<Rightarrow> pydict \<Rightarrow> string \<Rightarrow> field_error + 'a option" where
  "optional f dflt payload k =
     (case map_of payload k of
        None \<Rightarrow> Inr dflt
      | Some JNull \<Rightarrow> Inr None
      | Some v \<Rightarrow> (case f v of None \<Rightarrow> Inl (Invalid k) | Some a \<Rightarrow> Inr (Some a)))"

fun errors_of :: "field_error + 'a \<Rightarrow> field_error list" where
  "errors_of (Inl e) = [e]"
| "errors_of (Inr a) = []"

text \<open>
  \<^verbatim>\<open>ECGData(**payload)\<close>: every field is validated, keys that are not fields are ignored,
  and the errors of all fields are raised together as one \<^verbatim>\<open>ValidationError\<close>.
\<close>

definition ECGData_validate :: "coercions \<Rightarrow> pydict \<Rightarrow> field_error list + ECGData" where
  "ECGData_validate C payload =
     (let f_hr = required (float_field C) payload ''hr'';
          f_spo2 = required (float_field C) payload ''spo2'';
          f_ecg = required (list_float_field C) payload ''ecg'';
          f_rest = optional (int_field C) (Some 0) payload ''rest_ecg'';
          f_ts = optional (str_field C) None payload ''timestamp''
      in case (f_hr, f_spo2, f_ecg, f_rest, f_ts) of
           (Inr a, Inr b, Inr c, Inr d, Inr e) \<Rightarrow>
             Inr \<lparr>hr = a, spo2 = b, ecg = c, rest_ecg = d, timestamp = e\<rparr>
         | _ \<Rightarrow>
             Inl (errors_of f_hr @ errors_of f_spo2 @ errors_of f_ecg
                  @ errors_of f_rest @ errors_of f_ts))"

definition accepted :: "coercions \<Rightarrow> pydict \<Rightarrow> bool" where
  "accepted C payload = (case ECGData_validate C payload of Inr d \<Rightarrow> True | Inl e \<Rightarrow> False)"

text \<open>The errors of all fields, in the order of the fields.\<close>

definition field_errors :: "coercions \<Rightarrow> pydict \<Rightarrow> field_error list" where
  "field_errors C p =
     errors_of (required (float_field C) p ''hr'') @ errors_of (required (float_field C) p ''spo2'')
     @ errors_of (required (list_float_field C) p ''ecg'')
     @ errors_of (optional (int_field C) (Some 0) p ''rest_ecg'')
     @ errors_of (optional (str_field C) None p ''timestamp'')"

text \<open>
  A value is a list of floats for the validator when it is a JSON list and a \<^verbatim>\<open>float\<close> field
  takes each of its elements.
\<close>

fun float_list :: "coercions \<Rightarrow> json \<Rightarrow> bool" where
  "float_list C (JArr xs) = list_all (\<lambda>x. float_field C x \<noteq> None) xs"
| "float_list C v = False"

subsection \<open>A concrete choice of the coercions\<close>

text \<open>
  The closed examples below need one choice of the library's coercions. \<open>lax\<close> reads a
  string as a float when it is a plain decimal numeral (an optional minus sign, digits,
  and optionally a point followed by digits), which is what the library does on such a
  string in its default mode; an \<^verbatim>\<open>int\<close> field takes a JSON integer and a \<^verbatim>\<open>str\<close> field a
  JSON string. The library accepts further inputs; no example uses one.
\<close>

definition digit :: "char \<Rightarrow> nat option" where
  "digit c =
     (if c = CHR ''0'' then Some 0 else if c = CHR ''1'' then Some 1
      else if c = CHR ''2'' then Some 2 else if c = CHR ''3'' then Some 3
      else if c = CHR ''4'' then Some 4 else if c = CHR ''5'' then Some 5
      else if c = CHR ''6'' then Some 6 else if c = CHR ''7'' then Some 7
      else if c = CHR ''8'' then Some 8 else if c = CHR ''9'' then Some 9
      else None)"

definition digits :: "string \<Rightarrow> nat option" where
  "digits s = (if s = [] then None
               else map_option (foldl (\<lambda>a d. 10 * a + d) 0) (those (map digit s)))"

definition decimal :: "string \<Rightarrow> real option" where
  "decimal s =
     (let ip = takeWhile (\<lambda>c. c \<noteq> CHR ''.'') s;
          rest = dropWhile (\<lambda>c. c \<noteq> CHR ''.'') s
      in case rest of
           [] \<Rightarrow> map_option real (digits ip)
         | dot # fp \<Rightarrow>
             (case (digits ip, digits fp) of
                (Some a, Some b) \<Rightarrow> Some (real a + real b / 10 ^ length fp)
              | _ \<Rightarrow> None))"

definition plain_float :: "string \<Rightarrow> real option" where
  "plain_float s =
     (if s \<noteq> [] \<and> hd s = CHR ''-'' then map_option uminus (decimal (tl s)) else decimal s)"

definition lax :: coercions where
  "lax = \<lparr>str_float = plain_float,
          int_field = (\<lambda>v. case v of JInt i \<Rightarrow> Some i | _ \<Rightarrow> None),
          str_field = (\<lambda>v. case v of JStr s \<Rightarrow> Some s | _ \<Rightarrow> None)\<rparr>"

definition reading :: pydict where
  "reading =
     [(''hr'', JInt 72), (''spo2'', JFloat 98.5),
      (''ecg'', JArr [JFloat 0.1, JInt 2, JFloat (- 0.4)])]"

subsection \<open>The request handlers\<close>

text \<open>
  \<^verbatim>\<open>HTTPException(status_code=400, detail=f"Invalid data format: {str(e)}")\<close>: the detail is
  the fixed prefix followed by the library's rendering of the validation errors, kept
  here as the list of errors itself.
\<close>

datatype http_error = HTTPException (status_code: nat) (detail_prefix: string) (detail_errors: "field_error list")

definition start_measurement :: "device_data \<Rightarrow> string \<Rightarrow> string option \<Rightarrow> real \<Rightarrow> device_data \<times> pydict" where
  "start_measurement dd esp_id esp_ip now =
     (AList.update esp_id
        \<lparr>latest = [], ready = False, last_update = now, status = ''collecting'', collecting = True\<rparr> dd,
      [(''status'', JStr ''collecting''),
       (''esp_id'', JStr esp_id),
       (''message'', JStr (''Measurement started for '' @ esp_id))])"

definition receive_data :: "coercions \<Rightarrow> device_data \<Rightarrow> string \<Rightarrow> pydict \<Rightarrow> real \<Rightarrow> device_data \<times> (http_error + pydict)" where
  "receive_data C dd esp_id payload now =
     (case ECGData_validate C payload of
        Inr ecg_data \<Rightarrow>
          (AList.update esp_id
             \<lparr>latest = payload, ready = True, last_update = now, status = ''ready'', collecting = False\<rparr> dd,
           Inr [(''status'', JStr ''ok''),
                (''message'', JStr ''Data received successfully''),
                (''esp_id'', JStr esp_id)])
      | Inl e \<Rightarrow> (dd, Inl (HTTPException 400 ''Invalid data format: '' e)))"

definition get_latest :: "device_data \<Rightarrow> string \<Rightarrow> real \<Rightarrow> device_data \<times> pydict" where
  "get_latest dd esp_id now =
     (case map_of dd esp_id of
        None \<Rightarrow>
          (AList.update esp_id
             \<lparr>latest = [], ready = False, last_update = now, status = ''idle'', collecting = False\<rparr> dd,
           [(''status'', JStr ''idle''),
            (''message'', JStr ''Device initialized, waiting for start signal'')])
      | Some info \<Rightarrow>
          (let time_since_update = now - last_update info in
           if time_since_update > 300 \<and> ready info then
             (dd, [(''status'', JStr ''stale''),
                   (''message'', JStr ''Data is too old, please start new measurement'')])
           else if collecting info then
             (dd, [(''status'', JStr ''collecting''),
                   (''message'', JStr ''Start data collection now'')])
           else if \<not> ready info \<and> \<not> collecting info then
             (dd, [(''status'', JStr ''idle''),
                   (''message'', JStr ''Waiting for start signal...'')])
           else if ready info then
             (dd, AList.update ''status'' (JStr ''ready'') (latest info))
           else
             (dd, [(''status'', JStr ''idle''), (''message'', JStr ''Waiting...'')])))"

text \<open>
  \<^verbatim>\<open>list_devices\<close>: one summary per entry, in the order of the dictionary. The source
  renders \<^verbatim>\<open>last_update\<close> as an ISO date and \<^verbatim>\<open>seconds_ago\<close> with one decimal and the
  suffix \<^verbatim>\<open>s\<close>; the summaries here carry the two numbers themselves.
\<close>

definition device_summary :: "real \<Rightarrow> string \<times> device_info \<Rightarrow> pydict" where
  "device_summary current_time e =
     (case e of (esp_id, info) \<Rightarrow>
        [(''esp_id'', JStr esp_id),
         (''status'', JStr (status info)),
         (''ready'', JBool (ready info)),
         (''collecting'', JBool (collecting info)),
         (''last_update'', JFloat (last_update info)),
         (''seconds_ago'', JFloat (current_time - last_update info)),
         (''has_data'', JBool (latest info \<noteq> []))])"

definition list_devices :: "device_data \<Rightarrow> real \<Rightarrow> pydict" where
  "list_devices dd current_time =
     (let devices = map (device_summary current_time) dd
      in [(''total_devices'', JInt (int (length devices))),
          (''devices'', JArr (map JObj devices))])"

definition clear_device :: "device_data \<Rightarrow> string \<Rightarrow> device_data \<times> pydict" where
  "clear_device dd esp_id =
     (if map_of dd esp_id \<noteq> None
      then (AList.delete esp_id dd, [(''status'', JStr ''cleared''), (''esp_id'', JStr esp_id)])
      else (dd, [(''status'', JStr ''not_found''), (''esp_id'', JStr esp_id)]))"

definition clear_all_devices :: "device_data \<Rightarrow> device_data \<times> pydict" where
  "clear_all_devices dd =
     ([], [(''status'', JStr ''cleared''), (''count'', JInt (int (length dd)))])"

subsection \<open>Reading a response\<close>

definition reported :: "pydict \<Rightarrow> string" where
  "reported response = (case map_of response ''status'' of Some (JStr s) \<Rightarrow> s | _ \<Rightarrow> [])"

definition summaries :: "pydict \<Rightarrow> pydict list" where
  "summaries response =
     (case map_of response ''devices'' of
        Some (JArr ds) \<Rightarrow> concat (map (\<lambda>d. case d of JObj kvs \<Rightarrow> [kvs] | _ \<Rightarrow> []) ds)
      | _ \<Rightarrow> [])"

subsection \<open>Sequences of requests\<close>

text \<open>
  A request together with the clock reading at which its handler runs. \<open>run\<close> serves a
  sequence of requests, starting from the empty registry of a fresh process.
\<close>

datatype request =
    StartSignal string
  | Upload string pydict
  | Poll string
  | ListSessions
  | Clear string
  | ClearAll

fun handle :: "coercions \<Rightarrow> device_data \<Rightarrow> request \<times> real \<Rightarrow> device_data" where
  "handle C dd (StartSignal i, t) = fst (start_measurement dd i None t)"
| "handle C dd (Upload i p, t) = fst (receive_data C dd i p t)"
| "handle C dd (Poll i, t) = fst (get_latest dd i t)"
| "handle C dd (ListSessions, t) = dd"
| "handle C dd (Clear i, t) = fst (clear_device dd i)"
| "handle C dd (ClearAll, t) = fst (clear_all_devices dd)"

definition run :: "coercions \<Rightarrow> (request \<times> real) list \<Rightarrow> device_data" where
  "run C rs = foldl (handle C) [] rs"

text \<open>
  The history of one id: whether an accepted upload for the id has occurred since the
  last start signal for it (or since the beginning, when there was none).
\<close>

fun track :: "coercions \<Rightarrow> string \<Rightarrow> bool \<Rightarrow> request \<times> real \<Rightarrow> bool" where
  "track C i b (StartSignal j, t) = (if j = i then False else b)"
| "track C i b (Upload j p, t) = (if j = i \<and> accepted C p then True else b)"
| "track C i b (r, t) = b"

definition uploaded_since_start :: "coercions \<Rightarrow> string \<Rightarrow> (request \<times> real) list \<Rightarrow> bool" where
  "uploaded_since_start C i rs = foldl (track C i) False rs"

section \<open>The classification helper of \<^verbatim>\<open>backend/ecg_processing.py\<close>\<close>

text \<open>
  \<^verbatim>\<open>process_ecg_to_restecg\<close> computes with numpy on IEEE 754 binary64 numbers. Its
  thresholds are exact comparisons, which rounding decides, so the arithmetic is modelled
  with its rounding.
\<close>

text \<open>
  A double is a finite value, kept as the rational number it denotes, an infinity or a
  NaN. The sign of a zero is not kept: the function below never divides by a zero and
  compares only magnitudes.
\<close>

datatype double = Fin rat | PInf | NInf | NaN

text \<open>
  Rounding a rational number to the nearest double, ties to the even significand:
  \<open>bits n\<close> is the number of binary digits of \<open>n\<close>, \<open>expo x\<close> the exponent \<open>e\<close> with
  \<open>2^e \<le> x < 2^(e+1)\<close> of a positive \<open>x\<close>, and \<open>rne\<close> rounds to the nearest integer, ties
  to even. The significand has 53 digits, 52 after the leading one; below \<open>2^(-1022)\<close> the
  spacing stays \<open>2^(-1074)\<close> (subnormal numbers), and a result that reaches \<open>2^1024\<close> is an
  infinity.
\<close>

function bits :: "int \<Rightarrow> int" where
  "bits n = (if n \<le> 0 then 0 else 1 + bits (n div 2))"
  by pat_completeness auto
termination
  by (relation "measure nat") auto

declare bits.simps [simp del]

definition pow2 :: "int \<Rightarrow> rat" where
  "pow2 k = (if 0 \<le> k then 2 ^ nat k else 1 / 2 ^ nat (- k))"

definition expo :: "rat \<Rightarrow> int" where
  "expo x = (if 1 \<le> x then bits \<lfloor>x\<rfloor> - 1 else - bits (\<lceil>1 / x\<rceil> - 1))"

definition rne :: "rat \<Rightarrow> int" where
  "rne q = (let f = \<lfloor>q\<rfloor>; d = q - of_int f
            in if d < 1 / 2 then f else if 1 / 2 < d then f + 1
               else if even f then f else f + 1)"

definition rnd :: "rat \<Rightarrow> double" where
  "rnd x =
     (if x = 0 then Fin 0
      else let e = max (expo \<bar>x\<bar>) (- 1022) - 52;
               n = rne (x / pow2 e)
           in if 1025 \<le> bits \<bar>n\<bar> + e then (if 0 < x then PInf else NInf)
              else Fin (of_int n * pow2 e))"





















section \<open>Properties\<close>

lemma reported_update [simp]: "reported (AList.update ''status'' (JStr s) p) = s"
  by (simp add: reported_def update_conv')


subsection \<open>Facts about the dictionary operations and the handlers\<close>

lemma update_fresh: "map_of al k = None \<Longrightarrow> AList.update k v al = al @ [(k, v)]"
  by (induction al) (auto split: if_splits)

lemma update_known_keys: "map_of al k = Some w \<Longrightarrow> map fst (AList.update k v al) = map fst al"
  by (induction al) (auto split: if_splits)

lemma accepted_nonempty: "accepted C p \<Longrightarrow> p \<noteq> []"
  by (auto simp: accepted_def ECGData_validate_def required_def Let_def)

lemma receive_data_accepted:
  "accepted C p \<Longrightarrow>
   receive_data C dd i p t =
     (AList.update i \<lparr>latest = p, ready = True, last_update = t, status = ''ready'', collecting = False\<rparr> dd,
      Inr [(''status'', JStr ''ok''), (''message'', JStr ''Data received successfully''), (''esp_id'', JStr i)])"
  by (auto simp: receive_data_def accepted_def split: sum.splits)

lemma receive_data_rejected: "\<not> accepted C p \<Longrightarrow> fst (receive_data C dd i p t) = dd"
  by (auto simp: receive_data_def accepted_def split: sum.splits)

lemma get_latest_known: "map_of dd i = Some info \<Longrightarrow> fst (get_latest dd i t) = dd"
  by (simp add: get_latest_def Let_def)

lemma poll_after_upload:
  "accepted C p \<Longrightarrow>
   reported (snd (get_latest (fst (receive_data C dd i p now)) i t))
     = (if t - now > 300 then ''stale'' else ''ready'')"
  by (simp add: receive_data_accepted get_latest_def update_conv' reported_def)

lemma summaries_list_devices: "summaries (list_devices dd t) = map (device_summary t) dd"
  by (induction dd) (simp_all add: summaries_def list_devices_def)

lemma accepted_reading: "accepted lax reading"
  by (simp add: accepted_def ECGData_validate_def required_def optional_def reading_def)

lemma reported_Cons [simp]: "reported ((''status'', JStr s) # rest) = s"
  by (simp add: reported_def)

lemma those_None: "those (map f xs) = None \<longleftrightarrow> (\<exists>x\<in>set xs. f x = None)"
  by (induction xs) (auto split: option.splits)

lemma list_float_field_None: "list_float_field C v = None \<longleftrightarrow> \<not> float_list C v"
  by (cases v) (auto simp: those_None list_all_iff)

lemma validate_Inl:
  "isl (required (float_field C) p ''hr'') \<or> isl (required (float_field C) p ''spo2'')
     \<or> isl (required (list_float_field C) p ''ecg'')
   \<Longrightarrow> ECGData_validate C p = Inl (field_errors C p)"
  unfolding ECGData_validate_def Let_def field_errors_def
  by (cases "required (float_field C) p ''hr''"; cases "required (float_field C) p ''spo2''";
      cases "required (list_float_field C) p ''ecg''";
      cases "optional (int_field C) (Some 0) p ''rest_ecg''";
      cases "optional (str_field C) None p ''timestamp''"; simp)

lemma required_missing: "map_of p k = None \<Longrightarrow> required f p k = Inl (Missing k)"
  by (simp add: required_def)

lemma errors_of_isl: "isl x \<Longrightarrow> errors_of x \<noteq> []"
  by (cases x) simp_all

lemma ecg_invalid:
  "map_of p ''ecg'' = Some v \<Longrightarrow> \<not> float_list C v
   \<Longrightarrow> required (list_float_field C) p ''ecg'' = Inl (Invalid ''ecg'')"
  using list_float_field_None [of C v] by (simp add: required_def)

text \<open>What each handler does to the entry of any id.\<close>

lemma map_of_start:
  "map_of (fst (start_measurement dd j ip t)) i
     = (if i = j then Some \<lparr>latest = [], ready = False, last_update = t, status = ''collecting'', collecting = True\<rparr>
        else map_of dd i)"
  by (simp add: start_measurement_def update_conv')

lemma map_of_receive:
  "map_of (fst (receive_data C dd j p t)) i
     = (if accepted C p \<and> i = j
        then Some \<lparr>latest = p, ready = True, last_update = t, status = ''ready'', collecting = False\<rparr>
        else map_of dd i)"
  by (cases "accepted C p") (simp_all add: receive_data_accepted receive_data_rejected update_conv')

lemma map_of_get_latest:
  "map_of (fst (get_latest dd j t)) i
     = (if i = j \<and> map_of dd j = None
        then Some \<lparr>latest = [], ready = False, last_update = t, status = ''idle'', collecting = False\<rparr>
        else map_of dd i)"
  by (cases "map_of dd j") (simp_all add: get_latest_def Let_def update_conv')

lemma map_of_clear: "map_of (fst (clear_device dd j)) i = (if i = j then None else map_of dd i)"
  by (auto simp: clear_device_def delete_conv')

lemma run_snoc: "run C (rs @ [r]) = handle C (run C rs) r"
  by (simp add: run_def)

lemma uploaded_snoc: "uploaded_since_start C i (rs @ [r]) = track C i (uploaded_since_start C i rs) r"
  by (simp add: uploaded_since_start_def)

text \<open>
  The invariant of the entries of a registry that a sequence of requests has produced:
  the payload is present exactly in a ready entry, a ready entry is not collecting and is
  the one whose stored status is \<^verbatim>\<open>ready\<close>, and it comes from an accepted upload that no
  start signal has followed.
\<close>

lemma run_invariant:
  "map_of (run C rs) i = Some info \<Longrightarrow>
     (latest info \<noteq> [] \<longleftrightarrow> ready info) \<and> (ready info \<longrightarrow> \<not> collecting info)
   \<and> (status info = ''ready'' \<longleftrightarrow> ready info) \<and> (ready info \<longrightarrow> uploaded_since_start C i rs)"
proof (induction rs arbitrary: info rule: rev_induct)
  case Nil
  then show ?case by (simp add: run_def)
next
  case (snoc r rs)
  obtain req t where r: "r = (req, t)" by (cases r)
  show ?case
  proof (cases req)
    case (StartSignal j)
    with snoc r show ?thesis
      by (auto simp: run_snoc uploaded_snoc map_of_start split: if_splits)
  next
    case (Upload j p)
    with snoc r show ?thesis
      by (auto simp: run_snoc uploaded_snoc map_of_receive accepted_nonempty split: if_splits)
  next
    case (Poll j)
    with snoc r show ?thesis
      by (auto simp: run_snoc uploaded_snoc map_of_get_latest split: if_splits)
  next
    case ListSessions
    with snoc r show ?thesis
      by (auto simp: run_snoc uploaded_snoc)
  next
    case (Clear j)
    with snoc r show ?thesis
      by (auto simp: run_snoc uploaded_snoc map_of_clear split: if_splits)
  next
    case ClearAll
    with snoc r show ?thesis
      by (auto simp: run_snoc clear_all_devices_def)
  qed
qed

lemma reported_poll_known:
  "map_of dd i = Some info \<Longrightarrow> ready info \<longrightarrow> \<not> collecting info \<Longrightarrow>
   reported (snd (get_latest dd i t)) \<in> {''ready'', ''stale''} \<longleftrightarrow> ready info"
  by (auto simp: get_latest_def Let_def)

text \<open>Sums, deviations and maxima of zeros in double arithmetic.\<close>

lemma rnd_zero [simp]: "rnd 0 = Fin 0"
  by (simp add: rnd_def)







subsection \<open>The claims\<close>

text \<open>
  C2. Whatever the registry holds for the id (nothing, or an entry in any state), the start
  signal succeeds with the acknowledgement \<^verbatim>\<open>collecting\<close>, stores an entry with an empty
  payload whose \<^verbatim>\<open>last_update\<close> is the time of the call, and a poll of the id at any later
  moment reports \<^verbatim>\<open>collecting\<close> and leaves the registry as the start signal left it.
\<close>

theorem start_then_poll_collecting:
  "reported (snd (start_measurement dd esp_id esp_ip t0)) = ''collecting''
   \<and> map_of (fst (start_measurement dd esp_id esp_ip t0)) esp_id
       = Some \<lparr>latest = [], ready = False, last_update = t0, status = ''collecting'', collecting = True\<rparr>
   \<and> reported (snd (get_latest (fst (start_measurement dd esp_id esp_ip t0)) esp_id t1)) = ''collecting''
   \<and> fst (get_latest (fst (start_measurement dd esp_id esp_ip t0)) esp_id t1)
       = fst (start_measurement dd esp_id esp_ip t0)"
  by (simp add: start_measurement_def get_latest_def reported_def update_conv')


text \<open>
  C1, as the code has it. After a start signal for an id, an upload of a payload that
  \<^verbatim>\<open>ECGData\<close> accepts succeeds, and a poll of the id no more than 300 time units after the
  upload reports \<^verbatim>\<open>ready\<close> and returns the uploaded dictionary with the key \<^verbatim>\<open>status\<close>
  set to \<^verbatim>\<open>ready\<close>: every other key of the upload is returned with its value, a payload
  without the key \<^verbatim>\<open>status\<close> is returned with the tag appended, and a \<^verbatim>\<open>status\<close> of the
  upload is overwritten. (A difference of two clock readings that is at most 300 is still
  at most 300 after its rounding to a double, so the poll of the code is not stale either.)
\<close>

theorem start_upload_poll_ready:
  assumes "accepted C payload" and "t2 - t1 \<le> 300"
  shows "snd (receive_data C (fst (start_measurement dd esp_id esp_ip t0)) esp_id payload t1)
           = Inr [(''status'', JStr ''ok''), (''message'', JStr ''Data received successfully''),
                  (''esp_id'', JStr esp_id)]
       \<and> snd (get_latest (fst (receive_data C (fst (start_measurement dd esp_id esp_ip t0)) esp_id payload t1))
               esp_id t2)
           = AList.update ''status'' (JStr ''ready'') payload
       \<and> reported (snd (get_latest (fst (receive_data C (fst (start_measurement dd esp_id esp_ip t0)) esp_id payload t1))
               esp_id t2)) = ''ready''
       \<and> (\<forall>k. k \<noteq> ''status'' \<longrightarrow>
             map_of (snd (get_latest (fst (receive_data C (fst (start_measurement dd esp_id esp_ip t0))
                                            esp_id payload t1)) esp_id t2)) k
               = map_of payload k)
       \<and> (map_of payload ''status'' = None \<longrightarrow>
             snd (get_latest (fst (receive_data C (fst (start_measurement dd esp_id esp_ip t0))
                                     esp_id payload t1)) esp_id t2)
               = payload @ [(''status'', JStr ''ready'')])"
proof -
  let ?resp = "snd (get_latest (fst (receive_data C (fst (start_measurement dd esp_id esp_ip t0))
                                      esp_id payload t1)) esp_id t2)"
  have ok: "snd (receive_data C (fst (start_measurement dd esp_id esp_ip t0)) esp_id payload t1)
           = Inr [(''status'', JStr ''ok''), (''message'', JStr ''Data received successfully''),
                  (''esp_id'', JStr esp_id)]"
    using assms(1) by (simp add: receive_data_accepted)
  have r: "?resp = AList.update ''status'' (JStr ''ready'') payload"
    using assms by (simp add: receive_data_accepted get_latest_def update_conv')
  have rep: "reported ?resp = ''ready''"
    by (simp add: r)
  have others: "\<forall>k. k \<noteq> ''status'' \<longrightarrow> map_of ?resp k = map_of payload k"
    by (simp add: r update_conv')
  have tag: "map_of payload ''status'' = None \<longrightarrow> ?resp = payload @ [(''status'', JStr ''ready'')]"
    by (simp add: r update_fresh)
  from ok r rep others tag show ?thesis by blast
qed

theorem start_upload_poll_ready_witness:
  "accepted lax reading \<and> (12::real) - 11 \<le> 300
   \<and> snd (get_latest (fst (receive_data lax (fst (start_measurement [] ''esp32_01'' None 10)) ''esp32_01'' reading 11))
               ''esp32_01'' 12)
      = [(''hr'', JInt 72), (''spo2'', JFloat 98.5),
         (''ecg'', JArr [JFloat 0.1, JInt 2, JFloat (- 0.4)]), (''status'', JStr ''ready'')]"
proof -
  have a: "accepted lax reading" by (rule accepted_reading)
  have b: "(12::real) - 11 \<le> 300" by simp
  note c = start_upload_poll_ready [OF a b, of "[]" "''esp32_01''" None 10]
  from c have "snd (get_latest (fst (receive_data lax (fst (start_measurement [] ''esp32_01'' None 10))
                                      ''esp32_01'' reading 11)) ''esp32_01'' 12)
      = AList.update ''status'' (JStr ''ready'') reading"
    by blast
  then have "snd (get_latest (fst (receive_data lax (fst (start_measurement [] ''esp32_01'' None 10))
                                      ''esp32_01'' reading 11)) ''esp32_01'' 12)
      = [(''hr'', JInt 72), (''spo2'', JFloat 98.5),
         (''ecg'', JArr [JFloat 0.1, JInt 2, JFloat (- 0.4)]), (''status'', JStr ''ready'')]"
    by (simp add: reading_def)
  with a b show ?thesis by blast
qed

text \<open>
  C1 as stated fails: when the uploaded payload has a key \<^verbatim>\<open>status\<close> of its own, which
  \<^verbatim>\<open>ECGData\<close> ignores, the poll does not return the uploaded payload plus a tag; the
  uploaded value of the key is gone and the answer has as many keys as the upload.
\<close>

theorem uploaded_status_overwritten:
  "accepted lax (reading @ [(''status'', JStr ''weird'')])
   \<and> map_of (reading @ [(''status'', JStr ''weird'')]) ''status'' = Some (JStr ''weird'')
   \<and> snd (get_latest (fst (receive_data lax (fst (start_measurement [] ''esp32_01'' None 10))
                              ''esp32_01'' (reading @ [(''status'', JStr ''weird'')]) 11)) ''esp32_01'' 12)
       = reading @ [(''status'', JStr ''ready'')]"
proof -
  have a: "accepted lax (reading @ [(''status'', JStr ''weird'')])"
    by (simp add: accepted_def ECGData_validate_def required_def optional_def reading_def)
  have b: "map_of (reading @ [(''status'', JStr ''weird'')]) ''status'' = Some (JStr ''weird'')"
    by (simp add: reading_def)
  have c: "snd (get_latest (fst (receive_data lax (fst (start_measurement [] ''esp32_01'' None 10))
                              ''esp32_01'' (reading @ [(''status'', JStr ''weird'')]) 11)) ''esp32_01'' 12)
       = reading @ [(''status'', JStr ''ready'')]"
    by (simp add: receive_data_accepted [OF a] get_latest_def update_conv') (simp add: reading_def)
  from a b c show ?thesis by blast
qed

text \<open>
  C4. When the registry has an entry for the id, in whatever state, an upload of a payload
  that \<^verbatim>\<open>ECGData\<close> accepts succeeds and replaces the entry: the payload is stored, the
  entry is ready and not collecting, \<^verbatim>\<open>last_update\<close> is the time of the upload, the keys
  of the registry and their order are as before, and a poll at that moment reports
  \<^verbatim>\<open>ready\<close>. No start signal is asked for.
\<close>

theorem upload_sets_ready:
  assumes "map_of dd esp_id = Some info" and "accepted C payload"
  shows "snd (receive_data C dd esp_id payload now)
           = Inr [(''status'', JStr ''ok''), (''message'', JStr ''Data received successfully''),
                  (''esp_id'', JStr esp_id)]
       \<and> map_of (fst (receive_data C dd esp_id payload now)) esp_id
           = Some \<lparr>latest = payload, ready = True, last_update = now, status = ''ready'', collecting = False\<rparr>
       \<and> map fst (fst (receive_data C dd esp_id payload now)) = map fst dd
       \<and> reported (snd (get_latest (fst (receive_data C dd esp_id payload now)) esp_id now)) = ''ready''"
  using assms by (simp add: receive_data_accepted update_conv' update_known_keys get_latest_def)

theorem upload_sets_ready_witness:
  "map_of [(''esp32_01'', \<lparr>latest = [], ready = False, last_update = 3, status = ''idle'', collecting = False\<rparr>)]
      ''esp32_01''
     = Some \<lparr>latest = [], ready = False, last_update = 3, status = ''idle'', collecting = False\<rparr>
   \<and> accepted lax reading
   \<and> fst (receive_data lax
        [(''esp32_01'', \<lparr>latest = [], ready = False, last_update = 3, status = ''idle'', collecting = False\<rparr>)]
        ''esp32_01'' reading 7)
     = [(''esp32_01'', \<lparr>latest = reading, ready = True, last_update = 7, status = ''ready'', collecting = False\<rparr>)]"
proof -
  have a: "map_of [(''esp32_01'', \<lparr>latest = [], ready = False, last_update = 3, status = ''idle'', collecting = False\<rparr>)]
      ''esp32_01''
     = Some \<lparr>latest = [], ready = False, last_update = 3, status = ''idle'', collecting = False\<rparr>"
    by simp
  note c = upload_sets_ready [OF a accepted_reading, of 7]
  have "fst (receive_data lax
        [(''esp32_01'', \<lparr>latest = [], ready = False, last_update = 3, status = ''idle'', collecting = False\<rparr>)]
        ''esp32_01'' reading 7)
     = [(''esp32_01'', \<lparr>latest = reading, ready = True, last_update = 7, status = ''ready'', collecting = False\<rparr>)]"
    by (simp add: receive_data_accepted accepted_reading)
  with a accepted_reading c show ?thesis by blast
qed

text \<open>
  C10. When the registry has no entry for the id, an upload of a payload that \<^verbatim>\<open>ECGData\<close>
  accepts succeeds and appends an entry that is ready from the start: the payload is
  stored, \<^verbatim>\<open>collecting\<close> is false and the stored status is \<^verbatim>\<open>ready\<close>. A poll of the id
  at any later moment reports \<^verbatim>\<open>ready\<close> or \<^verbatim>\<open>stale\<close>, never \<^verbatim>\<open>idle\<close> or
  \<^verbatim>\<open>collecting\<close>.
\<close>

theorem upload_creates_ready:
  assumes "map_of dd esp_id = None" and "accepted C payload"
  shows "receive_data C dd esp_id payload now
           = (dd @ [(esp_id, \<lparr>latest = payload, ready = True, last_update = now, status = ''ready'',
                               collecting = False\<rparr>)],
              Inr [(''status'', JStr ''ok''), (''message'', JStr ''Data received successfully''),
                   (''esp_id'', JStr esp_id)])
       \<and> reported (snd (get_latest (fst (receive_data C dd esp_id payload now)) esp_id t))
           \<in> {''ready'', ''stale''}"
proof -
  have "receive_data C dd esp_id payload now
           = (dd @ [(esp_id, \<lparr>latest = payload, ready = True, last_update = now, status = ''ready'',
                               collecting = False\<rparr>)],
              Inr [(''status'', JStr ''ok''), (''message'', JStr ''Data received successfully''),
                   (''esp_id'', JStr esp_id)])"
    using assms by (simp add: receive_data_accepted update_fresh)
  moreover have "reported (snd (get_latest (fst (receive_data C dd esp_id payload now)) esp_id t))
           \<in> {''ready'', ''stale''}"
    by (simp add: poll_after_upload [OF assms(2)])
  ultimately show ?thesis by (rule conjI)
qed

theorem upload_creates_ready_witness:
  "map_of ([] :: device_data) ''esp32_02'' = None \<and> accepted lax reading
   \<and> fst (receive_data lax [] ''esp32_02'' reading 5)
       = [(''esp32_02'', \<lparr>latest = reading, ready = True, last_update = 5, status = ''ready'',
                            collecting = False\<rparr>)]
   \<and> reported (snd (get_latest (fst (receive_data lax [] ''esp32_02'' reading 5)) ''esp32_02'' 6)) = ''ready''"
proof -
  have a: "map_of ([] :: device_data) ''esp32_02'' = None" by simp
  note c = upload_creates_ready [OF a accepted_reading, of 5 6]
  from c [THEN conjunct1] have c1: "fst (receive_data lax [] ''esp32_02'' reading 5)
       = [(''esp32_02'', \<lparr>latest = reading, ready = True, last_update = 5, status = ''ready'',
                            collecting = False\<rparr>)]"
    by simp
  have c2:
    "reported (snd (get_latest (fst (receive_data lax [] ''esp32_02'' reading 5)) ''esp32_02'' 6)) = ''ready''"
    by (simp add: poll_after_upload [OF accepted_reading])
  from a accepted_reading c1 c2 show ?thesis by blast
qed

text \<open>
  C6. A poll of an id that the registry does not hold reports \<^verbatim>\<open>idle\<close> and appends an
  idle entry for the id (empty payload, \<^verbatim>\<open>last_update\<close> the time of the poll); the list of
  devices taken afterwards is the list taken before, followed by one summary for the new
  id, with status \<^verbatim>\<open>idle\<close>.
\<close>

theorem poll_unknown_creates_idle:
  assumes "map_of dd esp_id = None"
  shows "reported (snd (get_latest dd esp_id t)) = ''idle''
       \<and> fst (get_latest dd esp_id t)
           = dd @ [(esp_id, \<lparr>latest = [], ready = False, last_update = t, status = ''idle'', collecting = False\<rparr>)]
       \<and> summaries (list_devices (fst (get_latest dd esp_id t)) t')
           = summaries (list_devices dd t')
             @ [[(''esp_id'', JStr esp_id), (''status'', JStr ''idle''), (''ready'', JBool False),
                 (''collecting'', JBool False), (''last_update'', JFloat t),
                 (''seconds_ago'', JFloat (t' - t)), (''has_data'', JBool False)]]"
  using assms by (simp add: get_latest_def update_fresh reported_def summaries_list_devices device_summary_def)

theorem poll_unknown_creates_idle_witness:
  "map_of ([] :: device_data) ''esp32_03'' = None
   \<and> reported (snd (get_latest [] ''esp32_03'' 2)) = ''idle''
   \<and> map reported (summaries (list_devices (fst (get_latest [] ''esp32_03'' 2)) 4)) = [''idle'']"
proof -
  have a: "map_of ([] :: device_data) ''esp32_03'' = None" by simp
  note c = poll_unknown_creates_idle [OF a, of 2 4]
  from c have c1: "reported (snd (get_latest [] ''esp32_03'' 2)) = ''idle''"
    by blast
  from c have "summaries (list_devices (fst (get_latest [] ''esp32_03'' 2)) 4)
           = summaries (list_devices [] 4)
             @ [[(''esp_id'', JStr ''esp32_03''), (''status'', JStr ''idle''), (''ready'', JBool False),
                 (''collecting'', JBool False), (''last_update'', JFloat 2),
                 (''seconds_ago'', JFloat (4 - 2)), (''has_data'', JBool False)]]"
    by blast
  then have c2: "map reported (summaries (list_devices (fst (get_latest [] ''esp32_03'' 2)) 4)) = [''idle'']"
    by (simp add: summaries_list_devices reported_def)
  from a c1 c2 show ?thesis by blast
qed

text \<open>
  C7. A poll of an id that the registry holds returns the registry as it was: no entry
  changes, so the stored state, the stored payload and \<^verbatim>\<open>last_update\<close> of the polled id
  keep their values. This includes the poll that reports \<^verbatim>\<open>stale\<close> for a ready entry
  older than 300 time units.
\<close>

theorem poll_known_unchanged:
  assumes "map_of dd esp_id = Some info"
  shows "fst (get_latest dd esp_id t) = dd
       \<and> (ready info \<and> t - last_update info > 300 \<longrightarrow> reported (snd (get_latest dd esp_id t)) = ''stale'')"
  using assms by (simp add: get_latest_def Let_def reported_def)

theorem poll_known_unchanged_witness:
  "map_of [(''esp32_01'', \<lparr>latest = reading, ready = True, last_update = 0, status = ''ready'', collecting = False\<rparr>)]
      ''esp32_01''
     = Some \<lparr>latest = reading, ready = True, last_update = 0, status = ''ready'', collecting = False\<rparr>
   \<and> (301::real) - 0 > 300
   \<and> get_latest
        [(''esp32_01'', \<lparr>latest = reading, ready = True, last_update = 0, status = ''ready'', collecting = False\<rparr>)]
        ''esp32_01'' 301
     = ([(''esp32_01'', \<lparr>latest = reading, ready = True, last_update = 0, status = ''ready'', collecting = False\<rparr>)],
        [(''status'', JStr ''stale''), (''message'', JStr ''Data is too old, please start new measurement'')])"
proof -
  have a: "map_of [(''esp32_01'', \<lparr>latest = reading, ready = True, last_update = 0, status = ''ready'', collecting = False\<rparr>)]
      ''esp32_01''
     = Some \<lparr>latest = reading, ready = True, last_update = 0, status = ''ready'', collecting = False\<rparr>"
    by simp
  note c = poll_known_unchanged [OF a, of 301]
  have b: "(301::real) - 0 > 300" by simp
  have "get_latest
        [(''esp32_01'', \<lparr>latest = reading, ready = True, last_update = 0, status = ''ready'', collecting = False\<rparr>)]
        ''esp32_01'' 301
     = ([(''esp32_01'', \<lparr>latest = reading, ready = True, last_update = 0, status = ''ready'', collecting = False\<rparr>)],
        [(''status'', JStr ''stale''), (''message'', JStr ''Data is too old, please start new measurement'')])"
    by (simp add: get_latest_def)
  with a b c show ?thesis by blast
qed

text \<open>
  C3, as the code has it. An upload whose payload lacks \<^verbatim>\<open>hr\<close>, \<^verbatim>\<open>spo2\<close> or \<^verbatim>\<open>ecg\<close>, or
  whose \<^verbatim>\<open>ecg\<close> is not a list of values that a \<^verbatim>\<open>float\<close> field takes (it is not a list, or
  an element is \<^verbatim>\<open>null\<close>, a list, an object, an integer that does not round to a finite
  double or a string that does not read as a float), is answered with the error 400 whose
  detail names each missing or invalid field, and the registry is returned as it was.
\<close>

theorem invalid_upload_rejected:
  assumes "map_of payload ''hr'' = None \<or> map_of payload ''spo2'' = None \<or> map_of payload ''ecg'' = None
     \<or> (\<exists>v. map_of payload ''ecg'' = Some v \<and> \<not> float_list C v)"
  shows "\<exists>errs. receive_data C dd esp_id payload now
                   = (dd, Inl (HTTPException 400 ''Invalid data format: '' errs))
     \<and> errs \<noteq> []
     \<and> (map_of payload ''hr'' = None \<longrightarrow> Missing ''hr'' \<in> set errs)
     \<and> (map_of payload ''spo2'' = None \<longrightarrow> Missing ''spo2'' \<in> set errs)
     \<and> (map_of payload ''ecg'' = None \<longrightarrow> Missing ''ecg'' \<in> set errs)
     \<and> (\<forall>v. map_of payload ''ecg'' = Some v \<and> \<not> float_list C v \<longrightarrow> Invalid ''ecg'' \<in> set errs)"
proof -
  let ?errs = "field_errors C payload"
  from assms have d: "isl (required (float_field C) payload ''hr'')
     \<or> isl (required (float_field C) payload ''spo2'')
     \<or> isl (required (list_float_field C) payload ''ecg'')"
  proof (elim disjE exE conjE)
    assume "map_of payload ''hr'' = None"
    then show ?thesis by (simp add: required_missing)
  next
    assume "map_of payload ''spo2'' = None"
    then show ?thesis by (simp add: required_missing)
  next
    assume "map_of payload ''ecg'' = None"
    then show ?thesis by (simp add: required_missing)
  next
    fix v assume "map_of payload ''ecg'' = Some v" and "\<not> float_list C v"
    then have "required (list_float_field C) payload ''ecg'' = Inl (Invalid ''ecg'')"
      by (rule ecg_invalid)
    then show ?thesis by simp
  qed
  then have e: "ECGData_validate C payload = Inl ?errs" by (rule validate_Inl)
  then have r: "receive_data C dd esp_id payload now
                   = (dd, Inl (HTTPException 400 ''Invalid data format: '' ?errs))"
    by (simp add: receive_data_def)
  have m1: "map_of payload ''hr'' = None \<longrightarrow> Missing ''hr'' \<in> set ?errs"
    using required_missing [of payload "''hr''" "float_field C"] by (auto simp: field_errors_def)
  have m2: "map_of payload ''spo2'' = None \<longrightarrow> Missing ''spo2'' \<in> set ?errs"
    using required_missing [of payload "''spo2''" "float_field C"] by (auto simp: field_errors_def)
  have m3: "map_of payload ''ecg'' = None \<longrightarrow> Missing ''ecg'' \<in> set ?errs"
    using required_missing [of payload "''ecg''" "list_float_field C"] by (auto simp: field_errors_def)
  have m4: "\<forall>v. map_of payload ''ecg'' = Some v \<and> \<not> float_list C v \<longrightarrow> Invalid ''ecg'' \<in> set ?errs"
    using ecg_invalid [of payload _ C] by (auto simp: field_errors_def)
  from d have ne: "?errs \<noteq> []"
    using errors_of_isl [of "required (float_field C) payload ''hr''"]
      errors_of_isl [of "required (float_field C) payload ''spo2''"]
      errors_of_isl [of "required (list_float_field C) payload ''ecg''"]
    by (auto simp: field_errors_def)
  show ?thesis
    by (rule exI [of _ ?errs]) (intro conjI r ne m1 m2 m3 m4)
qed

theorem invalid_upload_rejected_witness:
  "map_of [(''hr'', JInt 72), (''spo2'', JInt 98)] ''ecg'' = None
   \<and> receive_data lax
        [(''esp32_01'', \<lparr>latest = [], ready = False, last_update = 1, status = ''collecting'', collecting = True\<rparr>)]
        ''esp32_01'' [(''hr'', JInt 72), (''spo2'', JInt 98)] 4
      = ([(''esp32_01'', \<lparr>latest = [], ready = False, last_update = 1, status = ''collecting'', collecting = True\<rparr>)],
         Inl (HTTPException 400 ''Invalid data format: '' [Missing ''ecg'']))"
proof -
  have a: "map_of [(''hr'', JInt 72), (''spo2'', JInt 98)] ''ecg'' = None" by simp
  then have a': "map_of [(''hr'', JInt 72), (''spo2'', JInt 98)] ''hr'' = None
     \<or> map_of [(''hr'', JInt 72), (''spo2'', JInt 98)] ''spo2'' = None
     \<or> map_of [(''hr'', JInt 72), (''spo2'', JInt 98)] ''ecg'' = None
     \<or> (\<exists>v. map_of [(''hr'', JInt 72), (''spo2'', JInt 98)] ''ecg'' = Some v \<and> \<not> float_list lax v)"
    by blast
  from invalid_upload_rejected [OF a', of
      "[(''esp32_01'', \<lparr>latest = [], ready = False, last_update = 1, status = ''collecting'', collecting = True\<rparr>)]"
      "''esp32_01''" 4]
  obtain errs where "receive_data lax
        [(''esp32_01'', \<lparr>latest = [], ready = False, last_update = 1, status = ''collecting'', collecting = True\<rparr>)]
        ''esp32_01'' [(''hr'', JInt 72), (''spo2'', JInt 98)] 4
      = ([(''esp32_01'', \<lparr>latest = [], ready = False, last_update = 1, status = ''collecting'', collecting = True\<rparr>)],
         Inl (HTTPException 400 ''Invalid data format: '' errs))"
    by blast
  moreover have "receive_data lax
        [(''esp32_01'', \<lparr>latest = [], ready = False, last_update = 1, status = ''collecting'', collecting = True\<rparr>)]
        ''esp32_01'' [(''hr'', JInt 72), (''spo2'', JInt 98)] 4
      = ([(''esp32_01'', \<lparr>latest = [], ready = False, last_update = 1, status = ''collecting'', collecting = True\<rparr>)],
         Inl (HTTPException 400 ''Invalid data format: '' [Missing ''ecg'']))"
    by (simp add: receive_data_def ECGData_validate_def required_def optional_def)
  ultimately show ?thesis using a by blast
qed

text \<open>
  C3 as stated fails: a list of numeric strings is not a sequence of numbers, yet the
  upload is accepted and the entry of the id is overwritten.
\<close>

theorem numeric_strings_accepted:
  "receive_data lax
      [(''esp32_01'', \<lparr>latest = [], ready = False, last_update = 1, status = ''collecting'', collecting = True\<rparr>)]
      ''esp32_01'' [(''hr'', JInt 72), (''spo2'', JInt 98), (''ecg'', JArr [JStr ''1.5'', JStr ''0.25''])] 4
   = ([(''esp32_01'',
        \<lparr>latest = [(''hr'', JInt 72), (''spo2'', JInt 98), (''ecg'', JArr [JStr ''1.5'', JStr ''0.25''])],
         ready = True, last_update = 4, status = ''ready'', collecting = False\<rparr>)],
      Inr [(''status'', JStr ''ok''), (''message'', JStr ''Data received successfully''),
           (''esp_id'', JStr ''esp32_01'')])"
  by (simp add: receive_data_def ECGData_validate_def required_def optional_def lax_def
       plain_float_def decimal_def digits_def digit_def)

text \<open>
  C5, as the code has it. \<^verbatim>\<open>list_devices\<close> returns one summary per entry, in the order of
  the registry, and copies the stored fields: the status is the stored status, whatever
  the age of the entry, and the age is reported beside it as \<^verbatim>\<open>seconds_ago\<close>.
\<close>

theorem list_devices_stored_status:
  "map_of (list_devices dd t) ''total_devices'' = Some (JInt (int (length dd)))
   \<and> map reported (summaries (list_devices dd t)) = map (\<lambda>e. status (snd e)) dd
   \<and> map (\<lambda>s. map_of s ''esp_id'') (summaries (list_devices dd t)) = map (\<lambda>e. Some (JStr (fst e))) dd
   \<and> map (\<lambda>s. map_of s ''seconds_ago'') (summaries (list_devices dd t))
       = map (\<lambda>e. Some (JFloat (t - last_update (snd e)))) dd
   \<and> map (\<lambda>s. map_of s ''has_data'') (summaries (list_devices dd t))
       = map (\<lambda>e. Some (JBool (latest (snd e) \<noteq> []))) dd"
proof -
  have total: "map_of (list_devices dd t) ''total_devices'' = Some (JInt (int (length dd)))"
    by (simp add: list_devices_def)
  have rest: "map reported (summaries (list_devices dd t)) = map (\<lambda>e. status (snd e)) dd
   \<and> map (\<lambda>s. map_of s ''esp_id'') (summaries (list_devices dd t)) = map (\<lambda>e. Some (JStr (fst e))) dd
   \<and> map (\<lambda>s. map_of s ''seconds_ago'') (summaries (list_devices dd t))
       = map (\<lambda>e. Some (JFloat (t - last_update (snd e)))) dd
   \<and> map (\<lambda>s. map_of s ''has_data'') (summaries (list_devices dd t))
       = map (\<lambda>e. Some (JBool (latest (snd e) \<noteq> []))) dd"
    by (simp add: summaries_list_devices device_summary_def split_def reported_def)
  from total rest show ?thesis by (rule conjI)
qed

text \<open>
  C5 as stated fails: 301 time units after an upload, a poll of the id reports \<^verbatim>\<open>stale\<close>
  while the list of devices reports \<^verbatim>\<open>ready\<close> for it.
\<close>

theorem list_devices_not_stale:
  "reported (snd (get_latest (fst (receive_data lax [] ''esp32_01'' reading 0)) ''esp32_01'' 301)) = ''stale''
   \<and> map reported (summaries (list_devices (fst (receive_data lax [] ''esp32_01'' reading 0)) 301)) = [''ready'']"
  by (simp add: receive_data_accepted accepted_reading get_latest_def reported_def
        summaries_list_devices device_summary_def)

text \<open>
  C9. In the registry that any sequence of start signals, uploads, polls, listings and
  clears has produced, the stored payload of an entry is non-empty exactly when a poll of
  the id reports \<^verbatim>\<open>ready\<close> or \<^verbatim>\<open>stale\<close> and an accepted upload for the id has occurred
  since the last start signal for it; and exactly when the stored status is \<^verbatim>\<open>ready\<close>.
\<close>

theorem payload_present_iff:
  assumes "map_of (run C rs) esp_id = Some info"
  shows "(latest info \<noteq> [] \<longleftrightarrow>
            reported (snd (get_latest (run C rs) esp_id now)) \<in> {''ready'', ''stale''}
            \<and> uploaded_since_start C esp_id rs)
       \<and> (latest info \<noteq> [] \<longleftrightarrow> status info = ''ready'')"
proof -
  note inv = run_invariant [OF assms]
  from inv have "ready info \<longrightarrow> \<not> collecting info" by blast
  from reported_poll_known [OF assms this, of now] inv show ?thesis by blast
qed

theorem payload_present_iff_witness:
  "map_of (run lax [(StartSignal ''esp32_01'', 1), (Upload ''esp32_01'' reading, 2), (Poll ''esp32_01'', 3)])
      ''esp32_01''
     = Some \<lparr>latest = reading, ready = True, last_update = 2, status = ''ready'', collecting = False\<rparr>
   \<and> reading \<noteq> []
   \<and> reported (snd (get_latest
        (run lax [(StartSignal ''esp32_01'', 1), (Upload ''esp32_01'' reading, 2), (Poll ''esp32_01'', 3)])
        ''esp32_01'' 4)) = ''ready''
   \<and> uploaded_since_start lax ''esp32_01''
        [(StartSignal ''esp32_01'', 1), (Upload ''esp32_01'' reading, 2), (Poll ''esp32_01'', 3)]"
proof -
  let ?rs = "[(StartSignal ''esp32_01'', 1), (Upload ''esp32_01'' reading, 2), (Poll ''esp32_01'', 3)]"
  have run: "run lax ?rs
      = [(''esp32_01'', \<lparr>latest = reading, ready = True, last_update = 2, status = ''ready'', collecting = False\<rparr>)]"
    by (simp add: run_def start_measurement_def receive_data_accepted accepted_reading get_latest_def)
  then have a: "map_of (run lax ?rs) ''esp32_01''
      = Some \<lparr>latest = reading, ready = True, last_update = 2, status = ''ready'', collecting = False\<rparr>"
    by simp
  have b: "reading \<noteq> []" by (simp add: reading_def)
  have c: "reported (snd (get_latest (run lax ?rs) ''esp32_01'' 4)) = ''ready''"
    by (simp add: run get_latest_def)
  from payload_present_iff [OF a, of 4] b
  have d: "uploaded_since_start lax ''esp32_01'' ?rs" by simp
  from a b c d show ?thesis by blast
qed




end
